theory Spec2Isabelle
  imports Main "HOL-Library.Option_ord" "HOL-Library.AList"
begin

section \<open>Python strings\<close>

text \<open>
  A Python \<open>str\<close> is modelled as a \<open>string\<close>. The model covers ASCII text: every
  \<open>char\<close> is one code point, case conversion acts on the letters A-Z and a-z, and
  whitespace and line boundaries are the ASCII ones. Code points above 127 are
  treated as caseless non-space characters.
\<close>

definition LF :: char where
  "LF = CHR 0x0A"

definition CR :: char where
  "CR = CHR 0x0D"

text \<open>\<open>str.isspace\<close> on one ASCII character: tab, LF, VT, FF, CR, FS, GS, RS, US, space.\<close>

definition isspace :: "char \<Rightarrow> bool" where
  "isspace c = (c = CHR 0x09 \<or> c = CHR 0x0A \<or> c = CHR 0x0B \<or> c = CHR 0x0C \<or> c = CHR 0x0D
     \<or> c = CHR 0x1C \<or> c = CHR 0x1D \<or> c = CHR 0x1E \<or> c = CHR 0x1F \<or> c = CHR '' '')"

text \<open>The characters at which \<open>str.splitlines\<close> ends a line (CR LF counts once).\<close>

definition is_linebreak :: "char \<Rightarrow> bool" where
  "is_linebreak c = (c = CHR 0x0A \<or> c = CHR 0x0B \<or> c = CHR 0x0C \<or> c = CHR 0x0D
     \<or> c = CHR 0x1C \<or> c = CHR 0x1D \<or> c = CHR 0x1E)"

definition is_upper :: "char \<Rightarrow> bool" where
  "is_upper c = (let n = (of_char c :: nat) in 65 \<le> n \<and> n \<le> 90)"

definition is_lower :: "char \<Rightarrow> bool" where
  "is_lower c = (let n = (of_char c :: nat) in 97 \<le> n \<and> n \<le> 122)"

definition lower_char :: "char \<Rightarrow> char" where
  "lower_char c = (if is_upper c then char_of ((of_char c :: nat) + 32) else c)"

definition upper_char :: "char \<Rightarrow> char" where
  "upper_char c = (if is_lower c then char_of ((of_char c :: nat) - 32) else c)"

text \<open>\<open>s.lower()\<close> and \<open>s.upper()\<close>.\<close>

definition lower :: "string \<Rightarrow> string" where
  "lower s = map lower_char s"

definition upper :: "string \<Rightarrow> string" where
  "upper s = map upper_char s"

text \<open>\<open>s.rstrip()\<close>, \<open>s.strip()\<close> and \<open>s.strip(chars)\<close>.\<close>

definition rstrip :: "string \<Rightarrow> string" where
  "rstrip s = rev (dropWhile isspace (rev s))"

definition strip :: "string \<Rightarrow> string" where
  "strip s = dropWhile isspace (rstrip s)"

definition strip_chars :: "string \<Rightarrow> string \<Rightarrow> string" where
  "strip_chars chars s =
     dropWhile (\<lambda>c. List.member chars c) (rev (dropWhile (\<lambda>c. List.member chars c) (rev s)))"

text \<open>\<open>s.replace(a, b)\<close> for single characters \<open>a\<close> and \<open>b\<close>.\<close>

definition replace_char :: "char \<Rightarrow> char \<Rightarrow> string \<Rightarrow> string" where
  "replace_char a b s = map (\<lambda>c. if c = a then b else c) s"

text \<open>
  \<open>s.splitlines()\<close>: the text is cut at every line boundary; the boundaries are
  dropped, and no empty line is produced after the last boundary.
\<close>

fun splitlines_from :: "string \<Rightarrow> string \<Rightarrow> string list" where
  "splitlines_from acc [] = (if acc = [] then [] else [acc])"
| "splitlines_from acc [c] = (if is_linebreak c then [acc] else [acc @ [c]])"
| "splitlines_from acc (c # d # cs) =
     (if c = CR \<and> d = LF then acc # splitlines_from [] cs
      else if is_linebreak c then acc # splitlines_from [] (d # cs)
      else splitlines_from (acc @ [c]) (d # cs))"

definition splitlines :: "string \<Rightarrow> string list" where
  "splitlines s = splitlines_from [] s"

text \<open>\<open>sep.join(parts)\<close>.\<close>

fun join :: "string \<Rightarrow> string list \<Rightarrow> string" where
  "join sep [] = []"
| "join sep [x] = x"
| "join sep (x # y # ys) = x @ sep @ join sep (y # ys)"

section \<open>The two regular expressions of the edited-text parser\<close>

definition is_hex :: "char \<Rightarrow> bool" where
  "is_hex c = (let n = (of_char c :: nat) in (48 \<le> n \<and> n \<le> 57) \<or> (97 \<le> n \<and> n \<le> 102))"

text \<open>
  \<open>re.match("# *([a-f0-9]+) *$", s)\<close>: the result is group 1 of the match, if any.
  The three repeated classes are disjoint, so the greedy match is the only one;
  \<open>$\<close> matches at the end of \<open>s\<close> or before a final newline.
\<close>

definition match_uuid :: "string \<Rightarrow> string option" where
  "match_uuid s =
     (case s of
        [] \<Rightarrow> None
      | c # r \<Rightarrow>
          if c \<noteq> CHR ''#'' then None
          else
            (let r1 = dropWhile (\<lambda>x. x = CHR '' '') r;
                 g = takeWhile is_hex r1;
                 r2 = dropWhile (\<lambda>x. x = CHR '' '') (dropWhile is_hex r1)
             in if g \<noteq> [] \<and> (r2 = [] \<or> r2 = [LF]) then Some g else None))"

text \<open>
  \<open>re.compile("^\\[[^\\]]+\\] ").findall(line)\<close>: the pattern is anchored at the start
  of the line, so there is at most one match; the result is the matched text
  (an opening bracket, one or more characters other than a closing bracket, a
  closing bracket and a space).
\<close>

definition date_blob_re :: "string \<Rightarrow> string option" where
  "date_blob_re line =
     (case line of
        [] \<Rightarrow> None
      | c # r \<Rightarrow>
          if c \<noteq> CHR ''['' then None
          else
            (let inner = takeWhile (\<lambda>x. x \<noteq> CHR '']'') r;
                 rest = dropWhile (\<lambda>x. x \<noteq> CHR '']'') r
             in if inner \<noteq> [] \<and> take 2 rest = ''] '' then Some (CHR ''['' # inner @ ''] '')
                else None))"

section \<open>Entries, the journal and its collaborators\<close>

type_synonym datetime = int
type_synonym timedelta = int

text \<open>The values a property list can hold (what \<open>plistlib\<close> loads and dumps).\<close>

datatype pvalue =
    PStr string
  | PInt int
  | PBool bool
  | PDate datetime
  | PArray "pvalue list"
  | PDict "(string \<times> pvalue) list"

datatype error =
    AttributeError
  | KeyError
  | TypeError
  | ValueError
  | IndexError
  | FileNotFoundError
  | NotADirectoryError
  | IsADirectoryError

text \<open>
  An \<open>Entry\<close> object. The attributes that \<open>DayOneJournal.py\<close> tests with
  \<open>hasattr\<close> are options (\<open>None\<close>: the attribute is not set); \<open>date\<close> is an option
  because the time parser can return \<open>None\<close>. The attribute \<open>text\<close> is the field
  \<open>entry_text\<close>, and \<open>_tags\<close> and the property \<open>tags\<close> are the one field \<open>tags\<close>.
\<close>

record entry =
  uuid :: "string option"
  date :: "datetime option"
  entry_text :: string
  title :: string
  body :: string
  tags :: "string list"
  starred :: bool
  modified :: bool
  creator_device_agent :: "pvalue option"
  creator_generation_date :: "pvalue option"
  creator_host_name :: "pvalue option"
  creator_os_agent :: "pvalue option"
  creator_software_agent :: "pvalue option"
  location :: "pvalue option"
  weather :: "pvalue option"

text \<open>A \<open>pytz\<close> time zone: its name and its offset from UTC (with \<open>is_dst=False\<close>).\<close>

record tzinfo =
  zone :: string
  utcoffset :: "datetime \<Rightarrow> timedelta"

text \<open>
  What the class \<open>DayOne\<close> takes from outside \<open>DayOneJournal.py\<close>: its configuration,
  the methods of \<open>Entry\<close>, the time parser of \<open>jrnl.time\<close>, and the libraries and the
  host it asks (\<open>pytz\<close>, \<open>tzlocal\<close>, \<open>time\<close>, \<open>uuid\<close>, \<open>socket\<close>, \<open>platform\<close>). Each is a
  parameter of the model:
  \<^item> \<open>parse_text\<close> is \<open>Entry._parse_text\<close>, \<open>entry_eq\<close> is \<open>Entry.__eq__\<close> and
    \<open>entry_str\<close> is \<open>Entry.__str__\<close>;
  \<^item> \<open>time_parse\<close> is \<open>jrnl.time.parse\<close>;
  \<^item> \<open>pytz_timezone\<close> is \<open>pytz.timezone\<close> (\<open>None\<close>: \<open>UnknownTimeZoneError\<close>);
  \<^item> \<open>local_to_utc d\<close> is \<open>datetime.utcfromtimestamp(time.mktime(d.timetuple()))\<close>;
  \<^item> \<open>uuid1_hex k\<close> is the result of the \<open>k\<close>-th call of \<open>uuid.uuid1().hex\<close>.
\<close>

record env =
  config_journal :: string
  config_tagsymbols :: string
  parse_text :: "entry \<Rightarrow> entry"
  entry_eq :: "entry \<Rightarrow> entry \<Rightarrow> bool"
  entry_str :: "entry \<Rightarrow> string"
  time_parse :: "string \<Rightarrow> datetime option"
  pytz_timezone :: "string \<Rightarrow> tzinfo option"
  get_localzone :: tzinfo
  local_to_utc :: "datetime \<Rightarrow> datetime"
  uuid1_hex :: "nat \<Rightarrow> string"
  gethostname :: string
  platform_system :: string
  platform_release :: string
  jrnl_title :: string
  jrnl_version :: string

text \<open>The journal object: \<open>self.entries\<close> and \<open>self._deleted_entries\<close>.\<close>

record store =
  entries :: "entry list"
  deleted_entries :: "entry list"

text \<open>
  Modelled from the spec: \<open>Entry._parse_text\<close> (in \<open>Entry.py\<close>, not among the sources)
  "derives title/body/tags from the combined text". The model lets the
  collaborator compute the content of the entry (title, body, tags and the star)
  from the whole entry, and leaves every other attribute as it was.
\<close>

definition do_parse_text :: "env \<Rightarrow> entry \<Rightarrow> entry" where
  "do_parse_text env e =
     (let r = parse_text env e
      in e\<lparr>title := title r, body := body r, tags := tags r, starred := starred r\<rparr>)"

text \<open>
  Modelled from the spec: the constructor of \<open>Entry\<close> (in \<open>Entry.py\<close>, not among the
  sources), "construction from (parent, creationInstant, text, starred)". The new
  entry has no identity and no extended metadata, is not modified, and has its
  content derived from the text; without a date it has "no creation instant".
\<close>

definition Entry_init :: "env \<Rightarrow> datetime option \<Rightarrow> string \<Rightarrow> bool \<Rightarrow> entry" where
  "Entry_init env d txt st =
     do_parse_text env
       \<lparr>uuid = None, date = d, entry_text = txt, title = [], body = [], tags = [],
        starred = st, modified = False,
        creator_device_agent = None, creator_generation_date = None,
        creator_host_name = None, creator_os_agent = None,
        creator_software_agent = None, location = None, weather = None\<rparr>"

section \<open>\<open>DayOne.editable_str\<close>\<close>

text \<open>
  \<open>"\n".join([f"# {e.uuid}\n{str(e)}" for e in self.entries])\<close>. Reading \<open>e.uuid\<close>
  raises \<open>AttributeError\<close> when the entry has none.
\<close>

fun editable_blocks :: "env \<Rightarrow> entry list \<Rightarrow> error + string list" where
  "editable_blocks env [] = Inr []"
| "editable_blocks env (e # es) =
     (case uuid e of
        None \<Rightarrow> Inl AttributeError
      | Some u \<Rightarrow>
          (case editable_blocks env es of
             Inl x \<Rightarrow> Inl x
           | Inr bs \<Rightarrow> Inr ((''# '' @ u @ [LF] @ entry_str env e) # bs)))"

definition editable_str :: "env \<Rightarrow> store \<Rightarrow> error + string" where
  "editable_str env S =
     (case editable_blocks env (entries S) of
        Inl x \<Rightarrow> Inl x
      | Inr bs \<Rightarrow> Inr (join [LF] bs))"

section \<open>\<open>DayOne.parse_editable_str\<close>\<close>

subsection \<open>The pass over the lines (source lines 192 to 221)\<close>

text \<open>
  The state of the loop is the list \<open>entries\<close> and \<open>current_entry\<close> (\<open>None\<close> before
  the first header). Assigning an attribute of \<open>current_entry\<close> while it is \<open>None\<close>
  raises \<open>AttributeError\<close>. An \<open>Entry\<close> object counts as true in a condition.
\<close>

definition parse_line :: "env \<Rightarrow> entry list \<times> entry option \<Rightarrow> string \<Rightarrow> error + entry list \<times> entry option" where
  "parse_line env st line0 =
     (let ents = fst st; current_entry = snd st; line = rstrip line0
      in case match_uuid (lower line) of
           Some g \<Rightarrow>
             Inr ((case current_entry of Some c \<Rightarrow> ents @ [c] | None \<Rightarrow> ents),
                  Some ((Entry_init env None [] False)\<lparr>modified := False, uuid := Some (lower g)\<rparr>))
         | None \<Rightarrow>
             (case date_blob_re line of
                Some date_blob \<Rightarrow>
                  (let new_date = time_parse env (strip_chars '' []'' date_blob)
                   in case current_entry of
                        None \<Rightarrow> Inl AttributeError
                      | Some c \<Rightarrow>
                          (let star = (line \<noteq> [] \<and> last line = CHR ''*'');
                               c1 = (if star then c\<lparr>starred := True\<rparr> else c);
                               line1 = (if star then butlast line else line)
                           in Inr (ents,
                                Some (c1\<lparr>title := strip (drop (length date_blob - 1) line1),
                                         date := new_date\<rparr>))))
              | None \<Rightarrow>
                  (case current_entry of
                     Some c \<Rightarrow> Inr (ents, Some (c\<lparr>body := body c @ line @ [LF]\<rparr>))
                   | None \<Rightarrow> Inr (ents, None))))"

fun parse_lines :: "env \<Rightarrow> entry list \<times> entry option \<Rightarrow> string list \<Rightarrow> error + entry list \<times> entry option" where
  "parse_lines env st [] = Inr st"
| "parse_lines env st (l # ls) =
     (case parse_line env st l of
        Inl x \<Rightarrow> Inl x
      | Inr st' \<Rightarrow> parse_lines env st' ls)"

definition parse_candidates :: "env \<Rightarrow> string \<Rightarrow> error + entry list" where
  "parse_candidates env edited =
     (case parse_lines env ([], None) (splitlines edited) of
        Inl x \<Rightarrow> Inl x
      | Inr st \<Rightarrow> Inr (case snd st of Some c \<Rightarrow> fst st @ [c] | None \<Rightarrow> fst st))"

subsection \<open>Matching the candidates against the journal (source lines 224 to 260)\<close>

text \<open>
  \<open>[e for e in self.entries if e.uuid.lower() == entry.uuid.lower()]\<close>, each match
  with its position in \<open>self.entries\<close> (the position stands for the identity of the
  object). The comparison reads the identity of every entry of the journal.
\<close>

definition matched_entries :: "entry list \<Rightarrow> entry \<Rightarrow> error + (nat \<times> entry) list" where
  "matched_entries ents entry =
     (if ents = [] then Inr []
      else if list_ex (\<lambda>e. uuid e = None) ents \<or> uuid entry = None then Inl AttributeError
      else Inr (filter (\<lambda>p. map_option lower (uuid (snd p)) = map_option lower (uuid entry))
                  (enumerate 0 ents)))"

text \<open>
  \<open>self.entries.remove(match)\<close>, where \<open>match\<close> is the object at position \<open>i\<close>:
  Python removes the first element that is the object itself or compares equal
  to it (\<open>element == match\<close>).
\<close>

fun list_remove :: "(entry \<Rightarrow> entry \<Rightarrow> bool) \<Rightarrow> nat \<Rightarrow> entry \<Rightarrow> entry list \<Rightarrow> entry list" where
  "list_remove eq i m [] = []"
| "list_remove eq i m (e # es) =
     (if i = 0 \<or> eq e m then es else e # list_remove eq (i - 1) m es)"

text \<open>
  The merge of a match into the candidate: \<open>list(set(entry.tags + match.tags))\<close>
  (the order of the result is not fixed by Python; the model keeps one
  occurrence of each tag) and the seven \<open>hasattr\<close> copies.
\<close>

definition merge_match :: "entry \<Rightarrow> entry \<Rightarrow> entry" where
  "merge_match entry m =
     entry\<lparr>tags := remdups (tags entry @ tags m),
           creator_device_agent :=
             (case creator_device_agent m of Some v \<Rightarrow> Some v | None \<Rightarrow> creator_device_agent entry),
           creator_generation_date :=
             (case creator_generation_date m of Some v \<Rightarrow> Some v | None \<Rightarrow> creator_generation_date entry),
           creator_host_name :=
             (case creator_host_name m of Some v \<Rightarrow> Some v | None \<Rightarrow> creator_host_name entry),
           creator_os_agent :=
             (case creator_os_agent m of Some v \<Rightarrow> Some v | None \<Rightarrow> creator_os_agent entry),
           creator_software_agent :=
             (case creator_software_agent m of Some v \<Rightarrow> Some v | None \<Rightarrow> creator_software_agent entry),
           location := (case location m of Some v \<Rightarrow> Some v | None \<Rightarrow> location entry),
           weather := (case weather m of Some v \<Rightarrow> Some v | None \<Rightarrow> weather entry)\<rparr>"

text \<open>
  One round of the loop: the new \<open>self.entries\<close> and the candidate as the round
  leaves it. \<open>match != entry\<close> is the negation of \<open>Entry.__eq__\<close>.
\<close>

definition update_entry :: "env \<Rightarrow> entry list \<Rightarrow> entry \<Rightarrow> error + entry list \<times> entry" where
  "update_entry env ents entry0 =
     (let entry = do_parse_text env entry0
      in case matched_entries ents entry of
           Inl x \<Rightarrow> Inl x
         | Inr [] \<Rightarrow> (let entry1 = entry\<lparr>modified := True\<rparr> in Inr (ents @ [entry1], entry1))
         | Inr (p # _) \<Rightarrow>
             (let entry1 = merge_match entry (snd p)
              in if entry_eq env (snd p) entry1 then Inr (ents, entry1)
                 else (let entry2 = entry1\<lparr>modified := True\<rparr>
                       in Inr (list_remove (entry_eq env) (fst p) (snd p) ents @ [entry2], entry2))))"

fun update_entries :: "env \<Rightarrow> entry list \<Rightarrow> entry list \<Rightarrow> error + entry list \<times> entry list" where
  "update_entries env ents [] = Inr (ents, [])"
| "update_entries env ents (c # cs) =
     (case update_entry env ents c of
        Inl x \<Rightarrow> Inl x
      | Inr r \<Rightarrow>
          (case update_entries env (fst r) cs of
             Inl x \<Rightarrow> Inl x
           | Inr r' \<Rightarrow> Inr (fst r', snd r # snd r')))"

subsection \<open>Removing the deleted entries (source lines 261 to 264)\<close>

text \<open>The result is the new \<open>self.entries\<close> and the new \<open>self._deleted_entries\<close>.\<close>

definition remove_deleted :: "entry list \<Rightarrow> entry list \<Rightarrow> error + entry list \<times> entry list" where
  "remove_deleted ents cands =
     (if list_ex (\<lambda>e. uuid e = None) cands \<or> list_ex (\<lambda>e. uuid e = None) ents
      then Inl AttributeError
      else (let edited_uuids = map uuid cands
            in Inr (filter (\<lambda>e. uuid e \<in> set edited_uuids) ents,
                    filter (\<lambda>e. uuid e \<notin> set edited_uuids) ents)))"

text \<open>
  The whole method: the journal after the call, and the list it returns. An
  exception is the result \<open>Inl\<close>; the model does not keep the journal as the
  exception leaves it.
\<close>

definition parse_editable_str :: "env \<Rightarrow> store \<Rightarrow> string \<Rightarrow> error + store \<times> entry list" where
  "parse_editable_str env S edited =
     (case parse_candidates env edited of
        Inl x \<Rightarrow> Inl x
      | Inr cands0 \<Rightarrow>
          (case update_entries env (entries S) cands0 of
             Inl x \<Rightarrow> Inl x
           | Inr r \<Rightarrow>
               (case remove_deleted (fst r) (snd r) of
                  Inl x \<Rightarrow> Inl x
                | Inr kd \<Rightarrow> Inr (S\<lparr>entries := fst kd, deleted_entries := snd kd\<rparr>, snd r))))"

section \<open>Record files and the journal directory\<close>

text \<open>
  The top-level dictionary of a record file, as \<open>plistlib.load\<close> returns it. A key
  is absent (\<open>None\<close>) or present with a value of the type DayOne writes under it;
  \<open>Creator\<close>, \<open>Location\<close> and \<open>Weather\<close> hold any property-list value.
\<close>

record dict_entry =
  Time_Zone :: "string option"
  Creation_Date :: "datetime option"
  Entry_Text :: "string option"
  Starred :: "bool option"
  UUID :: "string option"
  Tags :: "string list option"
  Creator :: "pvalue option"
  Location :: "pvalue option"
  Weather :: "pvalue option"

text \<open>
  What \<open>plistlib.load\<close> does with a file:
  \<^item> \<open>NotPlist\<close>: it raises one of \<open>PLIST_EXCEPTIONS\<close> (\<open>ExpatError\<close>, or
    \<open>InvalidFileException\<close>);
  \<^item> \<open>LoadError x\<close>: it raises another exception \<open>x\<close> (for a document that is
    well-formed XML but no proper property list: \<open>ValueError\<close> for a number
    that does not parse, \<open>AttributeError\<close> for a date that does not, \<open>IndexError\<close>
    for a key without a dictionary);
  \<^item> \<open>NotDict\<close>: it returns a value that is no dictionary (a string, a number,
    a list, \<open>None\<close>), on which the subscript of source line 55 raises \<open>TypeError\<close>;
  \<^item> \<open>Plist d\<close>: it returns the dictionary \<open>d\<close>.
\<close>

datatype file_content = NotPlist | LoadError error | NotDict | Plist dict_entry

text \<open>
  The journal directory is a tree; the children of a directory are listed in
  the order in which the operating system lists them.
\<close>

datatype node = File file_content | Dir "(string \<times> node) list"

text \<open>\<open>v[k]\<close> for a string \<open>k\<close>: only a dictionary can be subscripted with a string.\<close>

definition getitem :: "pvalue \<Rightarrow> string \<Rightarrow> error + pvalue" where
  "getitem v k =
     (case v of
        PDict kvs \<Rightarrow> (case map_of kvs k of None \<Rightarrow> Inl KeyError | Some x \<Rightarrow> Inr x)
      | _ \<Rightarrow> Inl TypeError)"

text \<open>\<open>dict_entry["Creator"][k]\<close>.\<close>

definition creator_item :: "dict_entry \<Rightarrow> string \<Rightarrow> error + pvalue" where
  "creator_item d k = (case Creator d of None \<Rightarrow> Inl KeyError | Some c \<Rightarrow> getitem c k)"

section \<open>\<open>DayOne.open\<close>\<close>

text \<open>Source lines 54 to 57: the named time zone, or the local one.\<close>

definition resolve_timezone :: "env \<Rightarrow> dict_entry \<Rightarrow> tzinfo" where
  "resolve_timezone env d =
     (case Time_Zone d of
        None \<Rightarrow> get_localzone env
      | Some name \<Rightarrow>
          (case pytz_timezone env name of
             None \<Rightarrow> get_localzone env
           | Some tz \<Rightarrow> tz))"

text \<open>Source lines 61 and 62.\<close>

definition to_utc :: "tzinfo \<Rightarrow> datetime \<Rightarrow> datetime" where
  "to_utc timezone d = (if zone timezone \<noteq> ''UTC'' then d + utcoffset timezone d else d)"

text \<open>
  Source lines 71 to 74: \<open>self.config["tagsymbols"][0] + tag.lower()\<close> for every tag;
  the first tag symbol is read once per tag, and raises \<open>IndexError\<close> when there is
  none.
\<close>

fun entry_tags :: "string \<Rightarrow> string list \<Rightarrow> error + string list" where
  "entry_tags syms [] = Inr []"
| "entry_tags syms (tag # ts) =
     (case syms of
        [] \<Rightarrow> Inl IndexError
      | s # _ \<Rightarrow>
          (case entry_tags syms ts of
             Inl x \<Rightarrow> Inl x
           | Inr r \<Rightarrow> Inr ((s # lower tag) # r)))"

text \<open>
  Source lines 54 to 110, the body of the \<open>else\<close> branch: one loaded dictionary
  becomes one entry. A missing required key raises \<open>KeyError\<close>; the seven blocks of
  extended attributes catch every exception.
\<close>

definition decode :: "env \<Rightarrow> dict_entry \<Rightarrow> error + entry" where
  "decode env d =
     (let timezone = resolve_timezone env d
      in case Creation_Date d of
           None \<Rightarrow> Inl KeyError
         | Some date0 \<Rightarrow>
             (let date1 = to_utc timezone date0
              in case Entry_Text d of
                   None \<Rightarrow> Inl KeyError
                 | Some txt \<Rightarrow>
                     (case Starred d of
                        None \<Rightarrow> Inl KeyError
                      | Some st \<Rightarrow>
                          (case UUID d of
                             None \<Rightarrow> Inl KeyError
                           | Some u \<Rightarrow>
                               (case entry_tags (config_tagsymbols env)
                                       (case Tags d of None \<Rightarrow> [] | Some ts \<Rightarrow> ts) of
                                  Inl x \<Rightarrow> Inl x
                                | Inr ts \<Rightarrow>
                                    (let entry = (Entry_init env (Some date1) txt st)
                                           \<lparr>uuid := Some u, tags := ts\<rparr>
                                     in Inr (entry
                                          \<lparr>creator_device_agent :=
                                             (case creator_item d ''Device Agent'' of
                                                Inr v \<Rightarrow> Some v
                                              | Inl _ \<Rightarrow> creator_device_agent entry),
                                           creator_generation_date :=
                                             (case creator_item d ''Generation Date'' of
                                                Inr v \<Rightarrow> Some v
                                              | Inl _ \<Rightarrow> Some (PDate date1)),
                                           creator_host_name :=
                                             (case creator_item d ''Host Name'' of
                                                Inr v \<Rightarrow> Some v
                                              | Inl _ \<Rightarrow> creator_host_name entry),
                                           creator_os_agent :=
                                             (case creator_item d ''OS Agent'' of
                                                Inr v \<Rightarrow> Some v
                                              | Inl _ \<Rightarrow> creator_os_agent entry),
                                           creator_software_agent :=
                                             (case creator_item d ''Software Agent'' of
                                                Inr v \<Rightarrow> Some v
                                              | Inl _ \<Rightarrow> creator_software_agent entry),
                                           location :=
                                             (case Location d of
                                                Some v \<Rightarrow> Some v
                                              | None \<Rightarrow> location entry),
                                           weather :=
                                             (case Weather d of
                                                Some v \<Rightarrow> Some v
                                              | None \<Rightarrow> weather entry)\<rparr>)))))))"

text \<open>\<open>fnmatch.filter(f, "*.doentry")\<close> on one name (case-sensitive, as on POSIX).\<close>

definition fnmatch_doentry :: "string \<Rightarrow> bool" where
  "fnmatch_doentry name =
     (8 \<le> length name \<and> drop (length name - 8) name = ''.doentry'')"

text \<open>
  Source lines 43 to 45: \<open>os.walk\<close> visits a directory, then its subdirectories in
  order; in each directory the matching file names are collected in order. A
  path is the list of its components below the journal directory.
\<close>

fun walk :: "string list \<Rightarrow> node \<Rightarrow> (string list \<times> file_content) list"
  and walk_files :: "string list \<Rightarrow> (string \<times> node) list \<Rightarrow> (string list \<times> file_content) list"
  and walk_dirs :: "string list \<Rightarrow> (string \<times> node) list \<Rightarrow> (string list \<times> file_content) list"
where
  "walk root (File c) = []"
| "walk root (Dir children) = walk_files root children @ walk_dirs root children"
| "walk_files root [] = []"
| "walk_files root (p # ps) =
     (case snd p of
        File c \<Rightarrow>
          (if fnmatch_doentry (fst p) then (root @ [fst p], c) # walk_files root ps
           else walk_files root ps)
      | Dir _ \<Rightarrow> walk_files root ps)"
| "walk_dirs root [] = []"
| "walk_dirs root (p # ps) =
     (case snd p of
        File _ \<Rightarrow> walk_dirs root ps
      | Dir children \<Rightarrow> walk (root @ [fst p]) (Dir children) @ walk_dirs root ps)"





section \<open>\<open>DayOne.write\<close>\<close>

text \<open>
  The file \<open>name\<close> of the subdirectory \<open>entries\<close>: reading it, opening it for
  writing and writing \<open>c\<close>, and \<open>os.remove\<close>.
\<close>

definition read_file :: "node \<Rightarrow> string \<Rightarrow> node option" where
  "read_file journal name =
     (case journal of
        File _ \<Rightarrow> None
      | Dir children \<Rightarrow>
          (case map_of children ''entries'' of
             Some (Dir es) \<Rightarrow> map_of es name
           | _ \<Rightarrow> None))"

definition write_file :: "node \<Rightarrow> string \<Rightarrow> file_content \<Rightarrow> error + node" where
  "write_file journal name c =
     (case journal of
        File _ \<Rightarrow> Inl NotADirectoryError
      | Dir children \<Rightarrow>
          (case map_of children ''entries'' of
             None \<Rightarrow> Inl FileNotFoundError
           | Some (File _) \<Rightarrow> Inl NotADirectoryError
           | Some (Dir es) \<Rightarrow>
               (case map_of es name of
                  Some (Dir _) \<Rightarrow> Inl IsADirectoryError
                | _ \<Rightarrow> Inr (Dir (AList.update ''entries''
                                   (Dir (AList.update name (File c) es)) children)))))"

definition remove_file :: "node \<Rightarrow> string \<Rightarrow> error + node" where
  "remove_file journal name =
     (case journal of
        File _ \<Rightarrow> Inl NotADirectoryError
      | Dir children \<Rightarrow>
          (case map_of children ''entries'' of
             None \<Rightarrow> Inl FileNotFoundError
           | Some (File _) \<Rightarrow> Inl NotADirectoryError
           | Some (Dir es) \<Rightarrow>
               (case map_of es name of
                  None \<Rightarrow> Inl FileNotFoundError
                | Some (Dir _) \<Rightarrow> Inl IsADirectoryError
                | Some (File _) \<Rightarrow>
                    Inr (Dir (AList.update ''entries'' (Dir (AList.delete name es)) children)))))"

text \<open>
  Source lines 119 to 171, the body of \<open>if entry.modified\<close>, for one entry: the
  entry with its defaults set, the directory after the write, and the exception
  raised, if any. \<open>k\<close> counts the calls of \<open>uuid.uuid1\<close> made so far.
\<close>

definition write_entry :: "env \<Rightarrow> nat \<Rightarrow> entry \<Rightarrow> node \<Rightarrow> entry \<times> node \<times> error option" where
  "write_entry env k entry0 journal =
     (case date entry0 of
        None \<Rightarrow> (entry0, journal, Some AttributeError)
      | Some d \<Rightarrow>
          (let utc_time = local_to_utc env d;
               u = (case uuid entry0 of Some x \<Rightarrow> x | None \<Rightarrow> uuid1_hex env k);
               device_agent =
                 (case creator_device_agent entry0 of Some v \<Rightarrow> v | None \<Rightarrow> PStr []);
               generation_date =
                 (case creator_generation_date entry0 of Some v \<Rightarrow> v | None \<Rightarrow> PDate utc_time);
               host_name =
                 (case creator_host_name entry0 of Some v \<Rightarrow> v | None \<Rightarrow> PStr (gethostname env));
               os_agent =
                 (case creator_os_agent entry0 of
                    Some v \<Rightarrow> v
                  | None \<Rightarrow> PStr (platform_system env @ ''/'' @ platform_release env));
               software_agent =
                 (case creator_software_agent entry0 of
                    Some v \<Rightarrow> v
                  | None \<Rightarrow> PStr (jrnl_title env @ ''/'' @ jrnl_version env));
               entry = entry0
                 \<lparr>uuid := Some u,
                  creator_device_agent := Some device_agent,
                  creator_generation_date := Some generation_date,
                  creator_host_name := Some host_name,
                  creator_os_agent := Some os_agent,
                  creator_software_agent := Some software_agent\<rparr>;
               fn = upper u @ ''.doentry'';
               entry_plist =
                 \<lparr>Time_Zone = Some (zone (get_localzone env)),
                  Creation_Date = Some utc_time,
                  Entry_Text = Some (title entry @ [LF] @ body entry),
                  Starred = Some (starred entry),
                  UUID = Some (upper u),
                  Tags = Some (map (\<lambda>tag. replace_char (CHR ''_'') (CHR '' '')
                                         (strip_chars (config_tagsymbols env) tag))
                                 (tags entry)),
                  Creator = Some (PDict
                    [(''Device Agent'', device_agent),
                     (''Generation Date'', generation_date),
                     (''Host Name'', host_name),
                     (''OS Agent'', os_agent),
                     (''Software Agent'', software_agent)]),
                  Location = location entry,
                  Weather = weather entry\<rparr>
           in case write_file journal fn (Plist entry_plist) of
                Inl x \<Rightarrow> (entry, journal, Some x)
              | Inr journal' \<Rightarrow> (entry, journal', None)))"

text \<open>Source lines 117 to 171: the loop over \<open>self.entries\<close>, stopped by an exception.\<close>

fun write_entries :: "env \<Rightarrow> nat \<Rightarrow> entry list \<Rightarrow> node \<Rightarrow> entry list \<times> node \<times> error option" where
  "write_entries env k [] journal = ([], journal, None)"
| "write_entries env k (e # es) journal =
     (if modified e then
        (let w = write_entry env k e journal
         in case snd (snd w) of
              Some x \<Rightarrow> (fst w # es, fst (snd w), Some x)
            | None \<Rightarrow>
                (let r = write_entries env (if uuid e = None then Suc k else k) es (fst (snd w))
                 in (fst w # fst r, snd r)))
      else (let r = write_entries env k es journal in (e # fst r, snd r)))"

text \<open>
  Source lines 173 to 177: the loop over \<open>self._deleted_entries\<close>; the file name
  is \<open>entry.uuid + ".doentry"\<close>.
\<close>

fun remove_entries :: "entry list \<Rightarrow> node \<Rightarrow> node \<times> error option" where
  "remove_entries [] journal = (journal, None)"
| "remove_entries (e # es) journal =
     (case uuid e of
        None \<Rightarrow> (journal, Some AttributeError)
      | Some u \<Rightarrow>
          (case remove_file journal (u @ ''.doentry'') of
             Inl x \<Rightarrow> (journal, Some x)
           | Inr journal' \<Rightarrow> remove_entries es journal'))"

text \<open>
  The whole method: the journal object and the directory as the call leaves
  them, and the exception that ended it, if any.
\<close>

definition DayOne_write :: "env \<Rightarrow> store \<Rightarrow> node \<Rightarrow> store \<times> node \<times> error option" where
  "DayOne_write env S journal =
     (let w = write_entries env 0 (entries S) journal
      in case snd (snd w) of
           Some x \<Rightarrow> (S\<lparr>entries := fst w\<rparr>, fst (snd w), Some x)
         | None \<Rightarrow>
             (let r = remove_entries (deleted_entries S) (fst (snd w))
              in (S\<lparr>entries := fst w\<rparr>, fst r, snd r)))"

section \<open>Vocabulary of the statements\<close>

text \<open>An identity made of one or more of the characters 0-9 and a-f.\<close>

definition hex_uuid :: "entry \<Rightarrow> bool" where
  "hex_uuid e = (case uuid e of None \<Rightarrow> False | Some h \<Rightarrow> h \<noteq> [] \<and> list_all is_hex h)"

text \<open>A string with an upper-case letter in it.\<close>

definition has_upper :: "string \<Rightarrow> bool" where
  "has_upper s = list_ex is_upper s"

text \<open>The invariant of the pass over the lines: every candidate has a hex identity.\<close>

definition parse_inv :: "entry list \<times> entry option \<Rightarrow> bool" where
  "parse_inv st =
     (list_all hex_uuid (fst st) \<and> (case snd st of None \<Rightarrow> True | Some c \<Rightarrow> hex_uuid c))"

text \<open>
  The first entry of a list whose identity is that of \<open>c\<close>, compared without
  regard to case.
\<close>

definition first_match :: "entry list \<Rightarrow> entry \<Rightarrow> entry option" where
  "first_match ents c =
     find (\<lambda>e. map_option lower (uuid e) = map_option lower (uuid c)) ents"


text \<open>
  A well-formed record: the four keys that \<open>DayOne.open\<close> reads without a
  default are present, and a tag symbol is configured when the record has tags.
\<close>

definition wellformed_record :: "env \<Rightarrow> dict_entry \<Rightarrow> bool" where
  "wellformed_record env d =
     (Creation_Date d \<noteq> None \<and> Entry_Text d \<noteq> None \<and> Starred d \<noteq> None \<and> UUID d \<noteq> None
      \<and> (Tags d = None \<or> Tags d = Some [] \<or> config_tagsymbols env \<noteq> []))"




section \<open>A concrete journal for the examples\<close>

text \<open>
  The examples run the model with the following collaborators: a time parser
  that knows two timestamps, the text rendering "a bracketed timestamp, optional
  star suffix, and title, followed by the body", a text-parsing rule that keeps
  the content as it is, and an equality that compares identity (without regard
  to case), title, body, date and star.
\<close>

definition ex_time_parse :: "string \<Rightarrow> datetime option" where
  "ex_time_parse s =
     (if s = ''2020-01-01 09:00'' then Some 1577869200
      else if s = ''2020-01-02 10:30'' then Some 1577961000
      else None)"

definition ex_show_date :: "datetime option \<Rightarrow> string" where
  "ex_show_date d =
     (if d = Some 1577869200 then ''2020-01-01 09:00''
      else if d = Some 1577961000 then ''2020-01-02 10:30''
      else ''?'')"

definition ex_entry_str :: "entry \<Rightarrow> string" where
  "ex_entry_str e =
     ''['' @ ex_show_date (date e) @ ''] '' @ title e @ (if starred e then '' *'' else [])
       @ [LF] @ body e"

definition ex_entry_eq :: "entry \<Rightarrow> entry \<Rightarrow> bool" where
  "ex_entry_eq a b =
     (map_option lower (uuid a) = map_option lower (uuid b)
      \<and> strip (title a) = strip (title b) \<and> rstrip (body a) = rstrip (body b)
      \<and> date a = date b \<and> starred a = starred b)"

definition ex_utc :: tzinfo where
  "ex_utc = \<lparr>zone = ''UTC'', utcoffset = (\<lambda>d. 0)\<rparr>"

definition ex_berlin :: tzinfo where
  "ex_berlin = \<lparr>zone = ''Europe/Berlin'', utcoffset = (\<lambda>d. 3600)\<rparr>"

definition ex_env :: env where
  "ex_env =
     \<lparr>config_journal = ''journal'', config_tagsymbols = ''@'',
      parse_text = (\<lambda>e. e), entry_eq = ex_entry_eq, entry_str = ex_entry_str,
      time_parse = ex_time_parse,
      pytz_timezone = (\<lambda>n. if n = ''UTC'' then Some ex_utc
                           else if n = ''Europe/Berlin'' then Some ex_berlin else None),
      get_localzone = ex_berlin,
      local_to_utc = (\<lambda>d. d - 3600), uuid1_hex = (\<lambda>k. ''f0''),
      gethostname = ''host'', platform_system = ''Linux'', platform_release = ''6'',
      jrnl_title = ''jrnl'', jrnl_version = ''2''\<rparr>"

text \<open>An unmodified entry without extended metadata.\<close>

definition ex_entry :: "string \<Rightarrow> datetime \<Rightarrow> string \<Rightarrow> string \<Rightarrow> entry" where
  "ex_entry u d t b =
     \<lparr>uuid = Some u, date = Some d, entry_text = [], title = t, body = b, tags = [],
      starred = False, modified = False,
      creator_device_agent = None, creator_generation_date = None,
      creator_host_name = None, creator_os_agent = None,
      creator_software_agent = None, location = None, weather = None\<rparr>"

text \<open>A journal of one entry whose identity is in upper case, and its rendering.\<close>

definition ex_doc1 :: string where
  "ex_doc1 = ''# A1\<newline>[2020-01-01 09:00] Hello\<newline>Body''"

text \<open>A journal of three entries with the identities A, B and C.\<close>

definition ex_journal3 :: "entry list" where
  "ex_journal3 =
     [ex_entry ''A'' 1577869200 ''Hello'' ''Body'',
      ex_entry ''B'' 1577869200 ''Second'' ''Text'',
      ex_entry ''C'' 1577961000 ''Third'' ''More'']"

text \<open>A record written in Berlin, without extended attributes, and one with some.\<close>

definition ex_record :: "string \<Rightarrow> dict_entry" where
  "ex_record u =
     \<lparr>Time_Zone = Some ''Europe/Berlin'', Creation_Date = Some 1577869200,
      Entry_Text = Some ''Hello'', Starred = Some False, UUID = Some u,
      Tags = Some [''Work''], Creator = None, Location = None, Weather = None\<rparr>"

definition ex_record_creator :: dict_entry where
  "ex_record_creator =
     (ex_record ''A1'')
       \<lparr>Creator := Some (PDict [(''Device Agent'', PStr ''iPhone'')]),
        Weather := Some (PStr ''rain'')\<rparr>"


text \<open>
  A new entry with the identity \<open>cd\<close>, as \<open>parse_editable_str\<close> creates it, the same
  entry after \<open>write\<close> has saved it, and the record file written for it.
\<close>

definition ex_new :: entry where
  "ex_new = (ex_entry ''cd'' 1577869200 ''Hello'' ''Body\<newline>'')\<lparr>modified := True\<rparr>"

definition ex_saved :: entry where
  "ex_saved =
     ex_new\<lparr>creator_device_agent := Some (PStr []),
            creator_generation_date := Some (PDate 1577865600),
            creator_host_name := Some (PStr ''host''),
            creator_os_agent := Some (PStr ''Linux/6''),
            creator_software_agent := Some (PStr ''jrnl/2'')\<rparr>"

definition ex_saved_plist :: dict_entry where
  "ex_saved_plist =
     \<lparr>Time_Zone = Some ''Europe/Berlin'', Creation_Date = Some 1577865600,
      Entry_Text = Some ''Hello\<newline>Body\<newline>'', Starred = Some False, UUID = Some ''CD'',
      Tags = Some [],
      Creator = Some (PDict
        [(''Device Agent'', PStr []),
         (''Generation Date'', PDate 1577865600),
         (''Host Name'', PStr ''host''),
         (''OS Agent'', PStr ''Linux/6''),
         (''Software Agent'', PStr ''jrnl/2'')]),
      Location = None, Weather = None\<rparr>"


section \<open>Evaluation rules\<close>

lemmas str_simps = splitlines_def rstrip_def strip_def strip_chars_def isspace_def
  is_linebreak_def CR_def LF_def lower_def lower_char_def is_upper_def upper_def
  upper_char_def is_lower_def char_of_def bit_Suc_0_iff match_uuid_def date_blob_re_def
  is_hex_def replace_char_def

lemmas ex_simps = ex_env_def ex_entry_eq_def ex_entry_str_def ex_show_date_def
  ex_time_parse_def ex_entry_def ex_utc_def ex_berlin_def

lemmas write_simps = DayOne_write_def write_entry_def write_file_def remove_file_def Let_def
  read_file_def AList.update.simps AList.delete_eq

section \<open>Identities of the candidates\<close>

lemma is_hex_not_upper: "is_hex c \<Longrightarrow> \<not> is_upper c"
  by (auto simp: is_hex_def is_upper_def Let_def)

lemma lower_hex: "list_all is_hex g \<Longrightarrow> lower g = g"
  by (induction g) (auto simp: lower_def lower_char_def is_hex_not_upper)

lemma match_uuid_hex: "match_uuid s = Some g \<Longrightarrow> g \<noteq> [] \<and> list_all is_hex g"
  by (auto simp: match_uuid_def Let_def list_all_iff split: list.splits if_splits dest: set_takeWhileD)

lemma hex_uuid_no_upper: "hex_uuid e \<Longrightarrow> uuid e = Some h \<Longrightarrow> \<not> has_upper h"
  by (auto simp: hex_uuid_def has_upper_def list_all_iff list_ex_iff dest: is_hex_not_upper)

lemma parse_line_inv:
  assumes "parse_line env st l = Inr st'" and "parse_inv st"
  shows "parse_inv st'"
proof (cases "match_uuid (lower (rstrip l))")
  case (Some g)
  then have "g \<noteq> [] \<and> list_all is_hex g" by (rule match_uuid_hex)
  with Some assms show ?thesis
    by (auto simp: parse_line_def parse_inv_def hex_uuid_def lower_hex Let_def split: option.splits)
next
  case None
  with assms show ?thesis
    by (auto simp: parse_line_def parse_inv_def hex_uuid_def Let_def split: option.splits if_splits)
qed

lemma parse_lines_inv:
  "parse_lines env st ls = Inr st' \<Longrightarrow> parse_inv st \<Longrightarrow> parse_inv st'"
proof (induction ls arbitrary: st)
  case Nil
  then show ?case by simp
next
  case (Cons l ls)
  then show ?case
    by (auto split: sum.splits dest: parse_line_inv)
qed

lemma parse_candidates_hex:
  assumes "parse_candidates env edited = Inr cands"
  shows "list_all hex_uuid cands"
proof -
  from assms obtain st where st: "parse_lines env ([], None) (splitlines edited) = Inr st"
    and c: "cands = (case snd st of Some c \<Rightarrow> fst st @ [c] | None \<Rightarrow> fst st)"
    by (auto simp: parse_candidates_def split: sum.splits)
  have "parse_inv ([], None)" by (simp add: parse_inv_def)
  with st have "parse_inv st" by (rule parse_lines_inv)
  with c show ?thesis by (auto simp: parse_inv_def split: option.splits)
qed

lemma set_list_remove: "set (list_remove eq i m ents) \<subseteq> set ents"
  by (induction ents arbitrary: i) auto

lemma uuid_do_parse_text [simp]: "uuid (do_parse_text env e) = uuid e"
  by (simp add: do_parse_text_def Let_def)

lemma uuid_merge_match [simp]: "uuid (merge_match e m) = uuid e"
  by (simp add: merge_match_def)

lemma update_entry_uuid:
  "update_entry env ents c = Inr r \<Longrightarrow> uuid (snd r) = uuid c"
  by (auto simp: update_entry_def Let_def split: sum.splits list.splits if_splits)

lemma update_entries_uuids:
  "update_entries env ents cs = Inr r \<Longrightarrow> map uuid (snd r) = map uuid cs"
proof (induction cs arbitrary: ents r)
  case Nil
  then show ?case by auto
next
  case (Cons c cs)
  then show ?case
    by (auto split: sum.splits dest: update_entry_uuid)
qed

lemma list_all_hex_uuid_map:
  "map uuid xs = map uuid ys \<Longrightarrow> list_all hex_uuid xs = list_all hex_uuid ys"
proof (induction xs arbitrary: ys)
  case Nil
  then show ?case by simp
next
  case (Cons x xs)
  then obtain y ys' where "ys = y # ys'" by (cases ys) auto
  with Cons show ?case by (auto simp: hex_uuid_def)
qed

lemma remove_deleted_upper:
  assumes "remove_deleted ents cands = Inr kd" and "list_all hex_uuid cands"
    and "e \<in> set ents" and "uuid e = Some h" and "has_upper h"
  shows "e \<in> set (snd kd) \<and> e \<notin> set (fst kd)"
proof -
  have "Some h \<notin> set (map uuid cands)"
  proof
    assume "Some h \<in> set (map uuid cands)"
    then obtain c where "c \<in> set cands" "uuid c = Some h" by auto
    with assms(2) have "hex_uuid c" by (simp add: list_all_iff)
    then have "\<not> has_upper h" using \<open>uuid c = Some h\<close> by (rule hex_uuid_no_upper)
    with assms(5) show False by simp
  qed
  with assms(1,3,4) show ?thesis
    by (auto simp: remove_deleted_def Let_def split: if_splits)
qed

section \<open>Lines before the first header\<close>

text \<open>
  Claim C9 says that every line before the first header is discarded and that
  parsing completes. A line that begins with a bracketed timestamp reaches the
  assignments to \<open>current_entry\<close> while it is still \<open>None\<close>: whatever the
  collaborators are, the call raises \<open>AttributeError\<close> on the document below.
\<close>

theorem timestamp_line_before_header_raises:
  "parse_candidates env
     ''[2020-01-01 09:00] Hello\<newline># abc\<newline>[2020-01-01 09:00] Title''
   = Inl AttributeError"
  by (simp add: parse_candidates_def parse_line_def str_simps)

section \<open>The deletion filter compares identities with regard to case\<close>

text \<open>
  Claim C10: every candidate that \<open>parse_editable_str\<close> returns has an identity
  without upper-case letters; the final filter keeps the entries whose identity
  is, as a string, among the identities of the candidates, and deletes the
  others; so every entry that is in \<open>self.entries\<close> when the loop over the
  candidates ends and whose identity has an upper-case letter is moved to the
  deleted entries and removed from the entries. The three assumptions name the
  results of the three phases of a call that returns.
\<close>

theorem case_sensitive_deletion:
  assumes "parse_candidates env edited = Inr cands0"
    and "update_entries env (entries S) cands0 = Inr r"
    and "remove_deleted (fst r) (snd r) = Inr kd"
  shows "parse_editable_str env S edited
           = Inr (S\<lparr>entries := fst kd, deleted_entries := snd kd\<rparr>, snd r)
         \<and> list_all (\<lambda>c. case uuid c of None \<Rightarrow> False | Some h \<Rightarrow> h \<noteq> [] \<and> \<not> has_upper h) (snd r)
         \<and> fst kd = filter (\<lambda>e. uuid e \<in> set (map uuid (snd r))) (fst r)
         \<and> snd kd = filter (\<lambda>e. uuid e \<notin> set (map uuid (snd r))) (fst r)
         \<and> (\<forall>e\<in>set (fst r). \<forall>h. uuid e = Some h \<and> has_upper h
               \<longrightarrow> e \<in> set (snd kd) \<and> e \<notin> set (fst kd))"
proof -
  have "list_all hex_uuid cands0"
    using assms(1) by (rule parse_candidates_hex)
  moreover have "map uuid (snd r) = map uuid cands0"
    using assms(2) by (rule update_entries_uuids)
  ultimately have hex: "list_all hex_uuid (snd r)"
    using list_all_hex_uuid_map by blast
  have 1: "parse_editable_str env S edited
           = Inr (S\<lparr>entries := fst kd, deleted_entries := snd kd\<rparr>, snd r)"
    using assms by (simp add: parse_editable_str_def)
  have 2: "list_all (\<lambda>c. case uuid c of None \<Rightarrow> False | Some h \<Rightarrow> h \<noteq> [] \<and> \<not> has_upper h) (snd r)"
    unfolding list_all_iff
  proof
    fix c
    assume "c \<in> set (snd r)"
    with hex have h: "hex_uuid c" by (simp add: list_all_iff)
    then obtain x where x: "uuid c = Some x" "x \<noteq> []"
      by (auto simp: hex_uuid_def split: option.splits)
    from h x(1) have "\<not> has_upper x" by (rule hex_uuid_no_upper)
    with x show "case uuid c of None \<Rightarrow> False | Some h \<Rightarrow> h \<noteq> [] \<and> \<not> has_upper h"
      by simp
  qed
  have 3: "\<forall>e\<in>set (fst r). \<forall>h. uuid e = Some h \<and> has_upper h
               \<longrightarrow> e \<in> set (snd kd) \<and> e \<notin> set (fst kd)"
    using remove_deleted_upper [OF assms(3) hex] by blast
  have 4: "fst kd = filter (\<lambda>e. uuid e \<in> set (map uuid (snd r))) (fst r)"
    "snd kd = filter (\<lambda>e. uuid e \<notin> set (map uuid (snd r))) (fst r)"
    using assms(3) by (auto simp: remove_deleted_def Let_def split: if_splits)
  from 1 2 3 4 show ?thesis by blast
qed

lemma ex_doc1_candidates:
  "parse_candidates ex_env ex_doc1 = Inr [ex_entry ''a1'' 1577869200 ''Hello'' ''Body\<newline>'']"
  by (simp add: parse_candidates_def parse_line_def Entry_init_def do_parse_text_def
      ex_doc1_def str_simps ex_simps)

lemma ex_doc1_update:
  "update_entries ex_env [ex_entry ''A1'' 1577869200 ''Hello'' ''Body'']
       [ex_entry ''a1'' 1577869200 ''Hello'' ''Body\<newline>'']
     = Inr ([ex_entry ''A1'' 1577869200 ''Hello'' ''Body''],
            [ex_entry ''a1'' 1577869200 ''Hello'' ''Body\<newline>''])"
  by (simp add: update_entry_def matched_entries_def merge_match_def enumerate_eq_zip
      do_parse_text_def str_simps ex_simps)

lemma ex_doc1_removed:
  "remove_deleted [ex_entry ''A1'' 1577869200 ''Hello'' ''Body'']
       [ex_entry ''a1'' 1577869200 ''Hello'' ''Body\<newline>'']
     = Inr ([], [ex_entry ''A1'' 1577869200 ''Hello'' ''Body''])"
  by (simp add: remove_deleted_def ex_entry_def)

text \<open>
  An instance: the identity \<open>A1\<close> is matched by the header \<open># A1\<close> without regard to
  case, and the entry is deleted all the same.
\<close>

theorem case_sensitive_deletion_witness:
  "parse_candidates ex_env ex_doc1 = Inr [ex_entry ''a1'' 1577869200 ''Hello'' ''Body\<newline>'']
   \<and> first_match [ex_entry ''A1'' 1577869200 ''Hello'' ''Body'']
         (ex_entry ''a1'' 1577869200 ''Hello'' ''Body\<newline>'')
       = Some (ex_entry ''A1'' 1577869200 ''Hello'' ''Body'')
   \<and> has_upper ''A1''
   \<and> parse_editable_str ex_env
         \<lparr>entries = [ex_entry ''A1'' 1577869200 ''Hello'' ''Body''], deleted_entries = []\<rparr> ex_doc1
       = Inr (\<lparr>entries = [], deleted_entries = [ex_entry ''A1'' 1577869200 ''Hello'' ''Body'']\<rparr>,
              [ex_entry ''a1'' 1577869200 ''Hello'' ''Body\<newline>''])"
proof -
  have m: "first_match [ex_entry ''A1'' 1577869200 ''Hello'' ''Body'']
         (ex_entry ''a1'' 1577869200 ''Hello'' ''Body\<newline>'')
       = Some (ex_entry ''A1'' 1577869200 ''Hello'' ''Body'')"
    by (simp add: first_match_def ex_entry_def str_simps)
  have u: "has_upper ''A1''"
    by (simp add: has_upper_def is_upper_def)
  have a2: "update_entries ex_env
        (entries \<lparr>entries = [ex_entry ''A1'' 1577869200 ''Hello'' ''Body''],
                  deleted_entries = []\<rparr>)
        [ex_entry ''a1'' 1577869200 ''Hello'' ''Body\<newline>'']
      = Inr ([ex_entry ''A1'' 1577869200 ''Hello'' ''Body''],
             [ex_entry ''a1'' 1577869200 ''Hello'' ''Body\<newline>''])"
    by (simp only: store.select_convs ex_doc1_update)
  have a3: "remove_deleted
        (fst ([ex_entry ''A1'' 1577869200 ''Hello'' ''Body''],
              [ex_entry ''a1'' 1577869200 ''Hello'' ''Body\<newline>'']))
        (snd ([ex_entry ''A1'' 1577869200 ''Hello'' ''Body''],
              [ex_entry ''a1'' 1577869200 ''Hello'' ''Body\<newline>'']))
      = Inr ([], [ex_entry ''A1'' 1577869200 ''Hello'' ''Body''])"
    by (simp only: fst_conv snd_conv ex_doc1_removed)
  from case_sensitive_deletion [OF ex_doc1_candidates a2 a3, THEN conjunct1]
  have p: "parse_editable_str ex_env
         \<lparr>entries = [ex_entry ''A1'' 1577869200 ''Hello'' ''Body''], deleted_entries = []\<rparr> ex_doc1
       = Inr (\<lparr>entries = [], deleted_entries = [ex_entry ''A1'' 1577869200 ''Hello'' ''Body'']\<rparr>,
              [ex_entry ''a1'' 1577869200 ''Hello'' ''Body\<newline>''])"
    by (simp only: fst_conv snd_conv store.update_convs)
  from ex_doc1_candidates m u p show ?thesis by blast
qed

section \<open>Rendering and parsing back\<close>

text \<open>
  Claim C1 says that rendering a journal and parsing the result back changes
  nothing. For the journal whose one entry has the identity \<open>A1\<close> the call
  returns an empty list of entries and moves the entry to the deleted entries.
\<close>

theorem roundtrip_uppercase_identity:
  "editable_str ex_env
       \<lparr>entries = [ex_entry ''A1'' 1577869200 ''Hello'' ''Body''], deleted_entries = []\<rparr>
     = Inr ''# A1\<newline>[2020-01-01 09:00] Hello\<newline>Body''
   \<and> parse_editable_str ex_env
         \<lparr>entries = [ex_entry ''A1'' 1577869200 ''Hello'' ''Body''], deleted_entries = []\<rparr>
         ''# A1\<newline>[2020-01-01 09:00] Hello\<newline>Body''
       = Inr (\<lparr>entries = [], deleted_entries = [ex_entry ''A1'' 1577869200 ''Hello'' ''Body'']\<rparr>,
              [ex_entry ''a1'' 1577869200 ''Hello'' ''Body\<newline>''])"
proof -
  have "editable_str ex_env
       \<lparr>entries = [ex_entry ''A1'' 1577869200 ''Hello'' ''Body''], deleted_entries = []\<rparr>
     = Inr ''# A1\<newline>[2020-01-01 09:00] Hello\<newline>Body''"
    by (simp add: editable_str_def LF_def ex_simps)
  moreover have "parse_editable_str ex_env
         \<lparr>entries = [ex_entry ''A1'' 1577869200 ''Hello'' ''Body''], deleted_entries = []\<rparr>
         ''# A1\<newline>[2020-01-01 09:00] Hello\<newline>Body''
       = Inr (\<lparr>entries = [], deleted_entries = [ex_entry ''A1'' 1577869200 ''Hello'' ''Body'']\<rparr>,
              [ex_entry ''a1'' 1577869200 ''Hello'' ''Body\<newline>''])"
    using ex_doc1_candidates ex_doc1_update ex_doc1_removed
    by (simp add: parse_editable_str_def ex_doc1_def del: update_entries.simps)
  ultimately show ?thesis by simp
qed

section \<open>Deletion detection\<close>

text \<open>
  Claim C2 says that for a journal with the identities A, B and C and a document
  with headers for A and C, the deleted entries are exactly B. The call deletes
  all three entries, because the candidates carry the identities a and c.
\<close>

theorem deletion_detection_uppercase:
  "parse_editable_str ex_env \<lparr>entries = ex_journal3, deleted_entries = []\<rparr>
       ''# A\<newline>[2020-01-01 09:00] Hello\<newline>Body\<newline># C\<newline>[2020-01-02 10:30] Third\<newline>More''
     = Inr (\<lparr>entries = [], deleted_entries = ex_journal3\<rparr>,
            [ex_entry ''a'' 1577869200 ''Hello'' ''Body\<newline>'',
             ex_entry ''c'' 1577961000 ''Third'' ''More\<newline>''])"
proof -
  have c: "parse_candidates ex_env
       ''# A\<newline>[2020-01-01 09:00] Hello\<newline>Body\<newline># C\<newline>[2020-01-02 10:30] Third\<newline>More''
     = Inr [ex_entry ''a'' 1577869200 ''Hello'' ''Body\<newline>'',
            ex_entry ''c'' 1577961000 ''Third'' ''More\<newline>'']"
    by (simp add: parse_candidates_def parse_line_def Entry_init_def do_parse_text_def
        str_simps ex_simps)
  have u: "update_entries ex_env ex_journal3
       [ex_entry ''a'' 1577869200 ''Hello'' ''Body\<newline>'',
        ex_entry ''c'' 1577961000 ''Third'' ''More\<newline>'']
     = Inr (ex_journal3,
            [ex_entry ''a'' 1577869200 ''Hello'' ''Body\<newline>'',
             ex_entry ''c'' 1577961000 ''Third'' ''More\<newline>''])"
    by (simp add: ex_journal3_def update_entry_def matched_entries_def merge_match_def
        enumerate_eq_zip do_parse_text_def str_simps ex_simps)
  have r: "remove_deleted ex_journal3
       [ex_entry ''a'' 1577869200 ''Hello'' ''Body\<newline>'',
        ex_entry ''c'' 1577961000 ''Third'' ''More\<newline>'']
     = Inr ([], ex_journal3)"
    by (simp add: remove_deleted_def ex_journal3_def ex_entry_def)
  show ?thesis
    using c u r by (simp add: parse_editable_str_def del: update_entries.simps)
qed

section \<open>One candidate against the journal\<close>







section \<open>Decoding one record\<close>

lemma entry_tags_Inr:
  "syms \<noteq> [] \<or> ts = [] \<Longrightarrow> entry_tags syms ts = Inr (map (\<lambda>tag. hd syms # lower tag) ts)"
  by (induction ts) (auto split: list.splits)

lemma entry_tags_Inl:
  "syms = [] \<Longrightarrow> ts \<noteq> [] \<Longrightarrow> entry_tags syms ts = Inl IndexError"
  by (cases ts) auto

lemma option_case_id: "(case x of None \<Rightarrow> None | Some v \<Rightarrow> Some v) = x"
  by (cases x) simp_all

lemma date_Entry_init [simp]: "date (Entry_init env d tx st) = d"
  by (simp add: Entry_init_def do_parse_text_def Let_def)

lemma metadata_Entry_init [simp]:
  "creator_device_agent (Entry_init env d tx st) = None"
  "creator_generation_date (Entry_init env d tx st) = None"
  "creator_host_name (Entry_init env d tx st) = None"
  "creator_os_agent (Entry_init env d tx st) = None"
  "creator_software_agent (Entry_init env d tx st) = None"
  "location (Entry_init env d tx st) = None"
  "weather (Entry_init env d tx st) = None"
  by (simp_all add: Entry_init_def do_parse_text_def Let_def)

lemma decode_wellformed:
  assumes "wellformed_record env d"
  shows "\<exists>cd tx st u.
     Creation_Date d = Some cd \<and> Entry_Text d = Some tx \<and> Starred d = Some st \<and> UUID d = Some u
     \<and> decode env d = Inr
         ((Entry_init env (Some (to_utc (resolve_timezone env d) cd)) tx st)
          \<lparr>uuid := Some u,
           tags := map (\<lambda>tag. hd (config_tagsymbols env) # lower tag)
                     (case Tags d of None \<Rightarrow> [] | Some ts \<Rightarrow> ts),
           creator_device_agent :=
             (case creator_item d ''Device Agent'' of Inr v \<Rightarrow> Some v | Inl _ \<Rightarrow> None),
           creator_generation_date :=
             (case creator_item d ''Generation Date'' of
                Inr v \<Rightarrow> Some v
              | Inl _ \<Rightarrow> Some (PDate (to_utc (resolve_timezone env d) cd))),
           creator_host_name :=
             (case creator_item d ''Host Name'' of Inr v \<Rightarrow> Some v | Inl _ \<Rightarrow> None),
           creator_os_agent :=
             (case creator_item d ''OS Agent'' of Inr v \<Rightarrow> Some v | Inl _ \<Rightarrow> None),
           creator_software_agent :=
             (case creator_item d ''Software Agent'' of Inr v \<Rightarrow> Some v | Inl _ \<Rightarrow> None),
           location := Location d,
           weather := Weather d\<rparr>)"
proof -
  from assms obtain cd tx st u where k: "Creation_Date d = Some cd" "Entry_Text d = Some tx"
      "Starred d = Some st" "UUID d = Some u"
    by (auto simp: wellformed_record_def)
  from assms have "config_tagsymbols env \<noteq> [] \<or> (case Tags d of None \<Rightarrow> [] | Some ts \<Rightarrow> ts) = []"
    by (auto simp: wellformed_record_def)
  then have t: "entry_tags (config_tagsymbols env) (case Tags d of None \<Rightarrow> [] | Some ts \<Rightarrow> ts)
      = Inr (map (\<lambda>tag. hd (config_tagsymbols env) # lower tag)
               (case Tags d of None \<Rightarrow> [] | Some ts \<Rightarrow> ts))"
    by (rule entry_tags_Inr)
  have "decode env d = Inr
         ((Entry_init env (Some (to_utc (resolve_timezone env d) cd)) tx st)
          \<lparr>uuid := Some u,
           tags := map (\<lambda>tag. hd (config_tagsymbols env) # lower tag)
                     (case Tags d of None \<Rightarrow> [] | Some ts \<Rightarrow> ts),
           creator_device_agent :=
             (case creator_item d ''Device Agent'' of Inr v \<Rightarrow> Some v | Inl _ \<Rightarrow> None),
           creator_generation_date :=
             (case creator_item d ''Generation Date'' of
                Inr v \<Rightarrow> Some v
              | Inl _ \<Rightarrow> Some (PDate (to_utc (resolve_timezone env d) cd))),
           creator_host_name :=
             (case creator_item d ''Host Name'' of Inr v \<Rightarrow> Some v | Inl _ \<Rightarrow> None),
           creator_os_agent :=
             (case creator_item d ''OS Agent'' of Inr v \<Rightarrow> Some v | Inl _ \<Rightarrow> None),
           creator_software_agent :=
             (case creator_item d ''Software Agent'' of Inr v \<Rightarrow> Some v | Inl _ \<Rightarrow> None),
           location := Location d,
           weather := Weather d\<rparr>)"
    unfolding decode_def Let_def k t option.case sum.case
    by (simp add: option_case_id cong: sum.case_cong option.case_cong)
  with k show ?thesis by blast
qed

lemma decode_not_wellformed:
  assumes "\<not> wellformed_record env d"
  shows "\<exists>x. decode env d = Inl x"
proof (cases "Creation_Date d = None \<or> Entry_Text d = None \<or> Starred d = None \<or> UUID d = None")
  case True
  then show ?thesis
    by (auto simp: decode_def Let_def split: option.splits)
next
  case False
  with assms have "config_tagsymbols env = []" "(case Tags d of None \<Rightarrow> [] | Some ts \<Rightarrow> ts) \<noteq> []"
    by (auto simp: wellformed_record_def split: option.splits)
  then have "entry_tags (config_tagsymbols env) (case Tags d of None \<Rightarrow> [] | Some ts \<Rightarrow> ts)
      = Inl IndexError"
    by (rule entry_tags_Inl)
  then show ?thesis
    by (auto simp: decode_def Let_def split: option.splits)
qed



text \<open>
  Claim C6 says that a missing attribute of the extended metadata leaves the
  field of the entry absent. The record below has no \<open>Creator\<close>, and the entry
  gets a generation date all the same: the creation date, as converted.
\<close>

theorem generation_date_default:
  "wellformed_record ex_env (ex_record ''A1'')
   \<and> Creator (ex_record ''A1'') = None
   \<and> (case decode ex_env (ex_record ''A1'') of
         Inl x \<Rightarrow> None | Inr e \<Rightarrow> creator_generation_date e)
       = Some (PDate 1577872800)"
proof -
  have w1: "wellformed_record ex_env (ex_record ''A1'')"
    by (simp add: wellformed_record_def ex_record_def ex_env_def)
  from decode_wellformed [OF w1]
  have "(case decode ex_env (ex_record ''A1'') of
         Inl x \<Rightarrow> None | Inr e \<Rightarrow> creator_generation_date e)
       = Some (PDate 1577872800)"
    by (auto simp: ex_record_def ex_env_def ex_berlin_def ex_utc_def creator_item_def
        to_utc_def resolve_timezone_def)
  with w1 show ?thesis by (simp add: ex_record_def)
qed

text \<open>
  Claim C6, as amended: for a well-formed record, \<open>decode\<close> returns an entry
  whatever the record holds under \<open>Creator\<close>, \<open>Location\<close> and \<open>Weather\<close>. Each of
  the four creator attributes other than the generation date, the location and
  the weather is the value read from the record, and absent when it cannot be
  read (no \<open>Creator\<close>, a \<open>Creator\<close> that is no dictionary, no such key). The
  generation date is the value read, and the converted creation date when it
  cannot be read.
\<close>

theorem decode_extended_metadata:
  assumes "wellformed_record env d"
  shows "\<exists>e cd. decode env d = Inr e \<and> Creation_Date d = Some cd
     \<and> creator_device_agent e =
         (case creator_item d ''Device Agent'' of Inr v \<Rightarrow> Some v | Inl x \<Rightarrow> None)
     \<and> creator_generation_date e =
         (case creator_item d ''Generation Date'' of
            Inr v \<Rightarrow> Some v
          | Inl x \<Rightarrow> Some (PDate (to_utc (resolve_timezone env d) cd)))
     \<and> creator_host_name e =
         (case creator_item d ''Host Name'' of Inr v \<Rightarrow> Some v | Inl x \<Rightarrow> None)
     \<and> creator_os_agent e =
         (case creator_item d ''OS Agent'' of Inr v \<Rightarrow> Some v | Inl x \<Rightarrow> None)
     \<and> creator_software_agent e =
         (case creator_item d ''Software Agent'' of Inr v \<Rightarrow> Some v | Inl x \<Rightarrow> None)
     \<and> location e = Location d
     \<and> weather e = Weather d
     \<and> (\<forall>c l w. wellformed_record env (d\<lparr>Creator := c, Location := l, Weather := w\<rparr>))"
proof -
  from decode_wellformed [OF assms] obtain cd e where
    "Creation_Date d = Some cd" "decode env d = Inr e"
    "creator_device_agent e =
         (case creator_item d ''Device Agent'' of Inr v \<Rightarrow> Some v | Inl x \<Rightarrow> None)"
    "creator_generation_date e =
         (case creator_item d ''Generation Date'' of
            Inr v \<Rightarrow> Some v
          | Inl x \<Rightarrow> Some (PDate (to_utc (resolve_timezone env d) cd)))"
    "creator_host_name e =
         (case creator_item d ''Host Name'' of Inr v \<Rightarrow> Some v | Inl x \<Rightarrow> None)"
    "creator_os_agent e =
         (case creator_item d ''OS Agent'' of Inr v \<Rightarrow> Some v | Inl x \<Rightarrow> None)"
    "creator_software_agent e =
         (case creator_item d ''Software Agent'' of Inr v \<Rightarrow> Some v | Inl x \<Rightarrow> None)"
    "location e = Location d" "weather e = Weather d"
    by auto
  moreover from assms
  have "\<forall>c l w. wellformed_record env (d\<lparr>Creator := c, Location := l, Weather := w\<rparr>)"
    by (simp add: wellformed_record_def)
  ultimately show ?thesis by blast
qed

text \<open>An instance: a record whose \<open>Creator\<close> has a device agent only.\<close>

theorem decode_extended_metadata_witness:
  "wellformed_record ex_env ex_record_creator
   \<and> (case decode ex_env ex_record_creator of
         Inl x \<Rightarrow> None
       | Inr e \<Rightarrow> Some (creator_device_agent e, creator_generation_date e, creator_host_name e,
            creator_os_agent e, creator_software_agent e, location e, weather e))
       = Some (Some (PStr ''iPhone''), Some (PDate 1577872800), None, None, None, None,
               Some (PStr ''rain''))"
proof -
  have w1: "wellformed_record ex_env ex_record_creator"
    by (simp add: wellformed_record_def ex_record_creator_def ex_record_def ex_env_def)
  from decode_extended_metadata [OF w1]
  have "(case decode ex_env ex_record_creator of
         Inl x \<Rightarrow> None
       | Inr e \<Rightarrow> Some (creator_device_agent e, creator_generation_date e, creator_host_name e,
            creator_os_agent e, creator_software_agent e, location e, weather e))
       = Some (Some (PStr ''iPhone''), Some (PDate 1577872800), None, None, None, None,
               Some (PStr ''rain''))"
    by (auto simp: ex_record_creator_def ex_record_def ex_env_def ex_berlin_def ex_utc_def
        creator_item_def getitem_def to_utc_def resolve_timezone_def)
  with w1 show ?thesis by simp
qed

section \<open>Loading a journal directory\<close>










section \<open>File names of saved and of deleted entries\<close>

text \<open>
  Claim C7 says that \<open>write\<close> saves an entry under its upper-cased identity and
  removes the file of a deleted entry under the same name. The file is removed
  under the identity as it is. Below, a new entry \<open>cd\<close> is parsed and saved as
  \<open>CD.doentry\<close>; it is then left out of the next edited text, and the \<open>write\<close> that
  follows looks for \<open>cd.doentry\<close>, raises \<open>FileNotFoundError\<close> and leaves
  \<open>CD.doentry\<close> where it was.
\<close>

theorem saved_entry_not_removed:
  "parse_editable_str ex_env \<lparr>entries = [], deleted_entries = []\<rparr>
       ''# cd\<newline>[2020-01-01 09:00] Hello\<newline>Body''
     = Inr (\<lparr>entries = [ex_new], deleted_entries = []\<rparr>, [ex_new])
   \<and> DayOne_write ex_env \<lparr>entries = [ex_new], deleted_entries = []\<rparr> (Dir [(''entries'', Dir [])])
     = (\<lparr>entries = [ex_saved], deleted_entries = []\<rparr>,
        Dir [(''entries'', Dir [(''CD.doentry'', File (Plist ex_saved_plist))])], None)
   \<and> parse_editable_str ex_env \<lparr>entries = [ex_saved], deleted_entries = []\<rparr> []
     = Inr (\<lparr>entries = [], deleted_entries = [ex_saved]\<rparr>, [])
   \<and> DayOne_write ex_env \<lparr>entries = [], deleted_entries = [ex_saved]\<rparr>
        (Dir [(''entries'', Dir [(''CD.doentry'', File (Plist ex_saved_plist))])])
     = (\<lparr>entries = [], deleted_entries = [ex_saved]\<rparr>,
        Dir [(''entries'', Dir [(''CD.doentry'', File (Plist ex_saved_plist))])],
        Some FileNotFoundError)"
proof -
  have 1: "parse_editable_str ex_env \<lparr>entries = [], deleted_entries = []\<rparr>
       ''# cd\<newline>[2020-01-01 09:00] Hello\<newline>Body''
     = Inr (\<lparr>entries = [ex_new], deleted_entries = []\<rparr>, [ex_new])"
    by (simp add: parse_editable_str_def parse_candidates_def parse_line_def Entry_init_def
        do_parse_text_def update_entry_def matched_entries_def remove_deleted_def Let_def
        ex_new_def str_simps ex_simps)
  have 2: "DayOne_write ex_env \<lparr>entries = [ex_new], deleted_entries = []\<rparr> (Dir [(''entries'', Dir [])])
     = (\<lparr>entries = [ex_saved], deleted_entries = []\<rparr>,
        Dir [(''entries'', Dir [(''CD.doentry'', File (Plist ex_saved_plist))])], None)"
    by (simp add: write_simps ex_new_def ex_saved_def ex_saved_plist_def str_simps ex_simps)
  have 3: "parse_editable_str ex_env \<lparr>entries = [ex_saved], deleted_entries = []\<rparr> []
     = Inr (\<lparr>entries = [], deleted_entries = [ex_saved]\<rparr>, [])"
    by (simp add: parse_editable_str_def parse_candidates_def splitlines_def remove_deleted_def
        ex_saved_def ex_new_def ex_entry_def)
  have 4: "DayOne_write ex_env \<lparr>entries = [], deleted_entries = [ex_saved]\<rparr>
        (Dir [(''entries'', Dir [(''CD.doentry'', File (Plist ex_saved_plist))])])
     = (\<lparr>entries = [], deleted_entries = [ex_saved]\<rparr>,
        Dir [(''entries'', Dir [(''CD.doentry'', File (Plist ex_saved_plist))])],
        Some FileNotFoundError)"
    by (simp add: write_simps ex_saved_def ex_new_def ex_entry_def)
  from 1 2 3 4 show ?thesis by blast
qed

section \<open>What \<open>write\<close> leaves alone\<close>

















end
